theory Spec2Isabelle
  imports Complex_Main
begin

section \<open>JavaScript values\<close>

text \<open>
  The server handles the values that \<open>JSON.parse\<close> produces, plus \<open>undefined\<close>.
  A number is kept as its mathematical value; the code modelled here only asks whether
  it is zero. An object is the list of its own properties in enumeration order, with
  distinct names after parsing; an array carries its elements and, separately, the named
  properties that an assignment such as \<open>a.markets = v\<close> adds to it.
\<close>

datatype jsval =
    Undefined
  | JNull
  | JBool bool
  | JNum real
  | JStr string
  | JArr "jsval list" "(string \<times> jsval) list"
  | JObj "(string \<times> jsval) list"

datatype error = NetworkFailure | FetchFailed nat | BodyError | TypeError

text \<open>Truthiness, as used by \<open>!x\<close>, \<open>x || y\<close> and \<open>x && y\<close>.\<close>

fun truthy :: "jsval \<Rightarrow> bool" where
  "truthy Undefined = False"
| "truthy JNull = False"
| "truthy (JBool b) = b"
| "truthy (JNum x) = (x \<noteq> 0)"
| "truthy (JStr s) = (s \<noteq> [])"
| "truthy (JArr xs ps) = True"
| "truthy (JObj ps) = True"

text \<open>\<open>a || b\<close>\<close>

definition or_else :: "jsval \<Rightarrow> jsval \<Rightarrow> jsval" where
  "or_else a b = (if truthy a then a else b)"

definition lookup :: "(string \<times> jsval) list \<Rightarrow> string \<Rightarrow> jsval" where
  "lookup ps k = (case map_of ps k of None \<Rightarrow> Undefined | Some v \<Rightarrow> v)"

text \<open>
  Writing a property of an object: an existing property keeps its place, a new one goes
  to the end.
\<close>

fun put :: "(string \<times> jsval) list \<Rightarrow> string \<Rightarrow> jsval \<Rightarrow> (string \<times> jsval) list" where
  "put [] k v = [(k, v)]"
| "put (p # ps) k v = (if fst p = k then (k, v) # ps else p # put ps k v)"

text \<open>
  \<open>x.k\<close>, for the property names this program reads (\<open>score\<close>, \<open>markets\<close>,
  \<open>bitcoin\<close>, \<open>usd\<close>, \<open>usd_market_cap\<close>, \<open>price\<close>, \<open>email\<close>,
  \<open>telegramChatId\<close>, ...): none of them is an index or a built-in property of a
  string, number, boolean or array, so on those the read gives \<open>undefined\<close>. Reading a
  property of \<open>null\<close> or \<open>undefined\<close> throws a TypeError.
\<close>

fun get_prop :: "jsval \<Rightarrow> string \<Rightarrow> error + jsval" where
  "get_prop Undefined k = Inl TypeError"
| "get_prop JNull k = Inl TypeError"
| "get_prop (JObj ps) k = Inr (lookup ps k)"
| "get_prop (JArr xs ps) k = Inr (lookup ps k)"
| "get_prop (JBool b) k = Inr Undefined"
| "get_prop (JNum x) k = Inr Undefined"
| "get_prop (JStr s) k = Inr Undefined"

text \<open>
  \<open>x.k = v\<close> in strict mode (the file is an ES module): objects and arrays take the
  property; on \<open>null\<close>, \<open>undefined\<close> and on a primitive the assignment throws a
  TypeError.
\<close>

fun set_prop :: "jsval \<Rightarrow> string \<Rightarrow> jsval \<Rightarrow> error + jsval" where
  "set_prop (JObj ps) k v = Inr (JObj (put ps k v))"
| "set_prop (JArr xs ps) k v = Inr (JArr xs (put ps k v))"
| "set_prop Undefined k v = Inl TypeError"
| "set_prop JNull k v = Inl TypeError"
| "set_prop (JBool b) k v = Inl TypeError"
| "set_prop (JNum x) k v = Inl TypeError"
| "set_prop (JStr s) k v = Inl TypeError"

section \<open>Upstream fetchers\<close>

text \<open>
  What one \<open>fetch\<close> call comes back with: the promise rejects (network error), or a
  response arrives with a status and a body. The body is given as the result of reading
  it (\<open>res.json()\<close> or \<open>res.text()\<close>), \<open>None\<close> when that read rejects (for
  \<open>res.json()\<close>: the body is not JSON).
\<close>

datatype 'b fetch_result = NetworkError | Response nat 'b

text \<open>\<open>res.ok\<close>\<close>

definition ok :: "nat \<Rightarrow> bool" where
  "ok st = (200 \<le> st \<and> st \<le> 299)"

fun fetchJson :: "jsval option fetch_result \<Rightarrow> error + jsval" where
  "fetchJson NetworkError = Inl NetworkFailure"
| "fetchJson (Response st b) =
     (if \<not> ok st then Inl (FetchFailed st)
      else case b of None \<Rightarrow> Inl BodyError | Some v \<Rightarrow> Inr v)"

definition fetchBtcMarket :: "jsval option fetch_result \<Rightarrow> error + jsval" where
  "fetchBtcMarket r =
     (case fetchJson r of Inl e \<Rightarrow> Inl e | Inr d \<Rightarrow>
      (case get_prop d ''bitcoin'' of Inl e \<Rightarrow> Inl e | Inr b \<Rightarrow>
       (let btc = or_else b (JObj []) in
        case get_prop btc ''usd'' of Inl e \<Rightarrow> Inl e | Inr usd \<Rightarrow>
        (case get_prop btc ''usd_market_cap'' of Inl e \<Rightarrow> Inl e | Inr cap \<Rightarrow>
           Inr (JObj [(''price'', or_else usd JNull), (''marketCap'', or_else cap JNull)])))))"

definition fetchGoldMarket :: "jsval option fetch_result \<Rightarrow> error + jsval" where
  "fetchGoldMarket r =
     (case fetchJson r of Inl e \<Rightarrow> Inl e | Inr d \<Rightarrow>
      (case get_prop d ''price'' of Inl e \<Rightarrow> Inl e | Inr p \<Rightarrow>
         Inr (JObj [(''price'', or_else p JNull), (''marketCap'', JNull),
                    (''marketCapEstimate'', JBool True)])))"

text \<open>
  Text is a list of single-byte characters. \<open>trim\<close> removes the white space and line
  terminators of that range from both ends; \<open>split\<close> always returns at least one piece.
\<close>

definition is_space :: "char \<Rightarrow> bool" where
  "is_space c = ((of_char c :: nat) \<in> {9, 10, 11, 12, 13, 32, 160})"

definition trim :: "string \<Rightarrow> string" where
  "trim s = rev (dropWhile is_space (rev (dropWhile is_space s)))"

fun split :: "char \<Rightarrow> string \<Rightarrow> string list" where
  "split sep [] = [[]]"
| "split sep (c # cs) =
     (if c = sep then [] # split sep cs
      else (case split sep cs of [] \<Rightarrow> [[c]] | w # ws \<Rightarrow> (c # w) # ws))"

text \<open>
  \<open>fetchSpx\<close> does not look at \<open>res.ok\<close>. The conversion \<open>Number\<close> is a parameter:
  \<open>number s\<close> is \<open>Some x\<close> when \<open>Number(s)\<close> is the finite number \<open>x\<close>, and
  \<open>None\<close> when it is NaN or infinite. A missing seventh column is \<open>undefined\<close>, which
  \<open>Number\<close> turns into NaN.
\<close>

definition fetchSpx :: "(string \<Rightarrow> real option) \<Rightarrow> string option fetch_result \<Rightarrow> error + jsval" where
  "fetchSpx number r =
     (case r of
        NetworkError \<Rightarrow> Inl NetworkFailure
      | Response st None \<Rightarrow> Inl BodyError
      | Response st (Some csv) \<Rightarrow>
          (let lines = split (char_of (10 :: nat)) (trim csv) in
           if length lines \<ge> 2 then
             (let parts = split (CHR '','') (lines ! 1);
                  close = (if 6 < length parts then number (parts ! 6) else None)
              in Inr (case close of Some x \<Rightarrow> JNum x | None \<Rightarrow> JNull))
           else Inr JNull))"

definition fetchSp500Market :: "(string \<Rightarrow> real option) \<Rightarrow> string option fetch_result \<Rightarrow> error + jsval" where
  "fetchSp500Market number r =
     (let spxPrice = (case fetchSpx number r of Inr p \<Rightarrow> p | Inl e \<Rightarrow> JNull)
      in Inr (JObj [(''price'', spxPrice), (''marketCap'', JNull), (''marketCapProxy'', JStr ''SPY'')]))"

text \<open>\<open>Promise.all\<close> of three promises: it rejects as soon as one of them does.\<close>

definition Promise_all :: "error + 'a \<Rightarrow> error + 'b \<Rightarrow> error + 'c \<Rightarrow> error + ('a \<times> 'b \<times> 'c)" where
  "Promise_all a b c =
     (case a of Inl e \<Rightarrow> Inl e | Inr x \<Rightarrow>
      (case b of Inl e \<Rightarrow> Inl e | Inr y \<Rightarrow>
       (case c of Inl e \<Rightarrow> Inl e | Inr z \<Rightarrow> Inr (x, y, z))))"

section \<open>Server state\<close>

record cache =
  data :: jsval
  dataUpdatedAt :: jsval
  marketsUpdatedAt :: jsval

text \<open>An outbound HTTP request of the process.\<close>

record request =
  url :: string
  http_method :: string
  body :: jsval

record key_record =
  id_key :: nat
  key_hash :: string
  plan :: string
  status :: string
  email :: jsval
  stripe_customer_id :: jsval
  stripe_subscription_id :: jsval

record alert =
  api_key_id :: nat
  alert_email :: jsval
  telegram_chat_id :: jsval

text \<open>
  The process state: the in-memory \<open>CACHE\<close>, the two tables of the database, and the
  log of the HTTP requests the process has sent out, oldest first.
\<close>

record server =
  CACHE :: cache
  api_keys :: "key_record list"
  alerts :: "alert list"
  sent :: "request list"

definition CACHE_init :: cache where
  "CACHE_init = \<lparr>data = JNull, dataUpdatedAt = JNull, marketsUpdatedAt = JNull\<rparr>"

definition server_init :: server where
  "server_init = \<lparr>CACHE = CACHE_init, api_keys = [], alerts = [], sent = []\<rparr>"

text \<open>\<open>process.env\<close>; a variable that is not set is \<open>None\<close>.\<close>

record env =
  ENV_INDEX_JSON_URL :: "string option"
  MAILER_URL :: "string option"
  STRIPE_WEBHOOK_SECRET :: "string option"

definition INDEX_JSON_URL :: "env \<Rightarrow> string" where
  "INDEX_JSON_URL e =
     (case ENV_INDEX_JSON_URL e of
        None \<Rightarrow> ''https://yy0x.github.io/InvestmentClimateIndex/index.json''
      | Some u \<Rightarrow> if u = [] then ''https://yy0x.github.io/InvestmentClimateIndex/index.json'' else u)"

definition GET :: "string \<Rightarrow> request" where
  "GET u = \<lparr>url = u, http_method = ''GET'', body = Undefined\<rparr>"

definition btc_url :: string where
  "btc_url = ''https://api.coingecko.com/api/v3/simple/price?ids=bitcoin&vs_currencies=usd&include_market_cap=true''"

definition gold_url :: string where
  "gold_url = ''https://api.gold-api.com/price/XAU''"

definition spx_url :: string where
  "spx_url = ''https://stooq.com/q/l/?s=^spx&f=sd2t2ohlcv&h&e=csv''"

section \<open>Refresh scheduler\<close>

text \<open>
  One tick of each timer, as one step: the tick gets what its fetches come back with and
  the time \<open>new Date().toISOString()\<close> reads, and runs to completion. What the
  other timer and the request handlers do while a tick awaits its fetches is not
  interleaved with it.
\<close>

definition refreshBaseData :: "env \<Rightarrow> jsval option fetch_result \<Rightarrow> string \<Rightarrow> server \<Rightarrow> server" where
  "refreshBaseData e r now s =
     (let s1 = s\<lparr>sent := sent s @ [GET (INDEX_JSON_URL e)]\<rparr> in
      case fetchJson r of
        Inr payload \<Rightarrow> s1\<lparr>CACHE := (CACHE s1)\<lparr>data := payload, dataUpdatedAt := JStr now\<rparr>\<rparr>
      | Inl err \<Rightarrow> s1)"

record market_responses =
  coingecko :: "jsval option fetch_result"
  gold_api :: "jsval option fetch_result"
  stooq :: "string option fetch_result"

definition refreshMarkets ::
  "(string \<Rightarrow> real option) \<Rightarrow> market_responses \<Rightarrow> string \<Rightarrow> server \<Rightarrow> server" where
  "refreshMarkets number r now s =
     (if \<not> truthy (data (CACHE s)) then s
      else
        (let s1 = s\<lparr>sent := sent s @ [GET btc_url, GET gold_url, GET spx_url]\<rparr> in
         case Promise_all (fetchBtcMarket (coingecko r)) (fetchGoldMarket (gold_api r))
                (fetchSp500Market number (stooq r)) of
           Inl err \<Rightarrow> s1
         | Inr (btc, gold, sp500) \<Rightarrow>
             (case set_prop (data (CACHE s1)) ''markets''
                     (JObj [(''btc'', btc), (''gold'', gold), (''sp500'', sp500)]) of
                Inl err \<Rightarrow> s1
              | Inr d \<Rightarrow> s1\<lparr>CACHE := (CACHE s1)\<lparr>data := d, marketsUpdatedAt := JStr now\<rparr>\<rparr>)))"

text \<open>A run of base refresh ticks, each with its outcome and its time.\<close>

fun base_ticks :: "env \<Rightarrow> (jsval option fetch_result \<times> string) list \<Rightarrow> server \<Rightarrow> server" where
  "base_ticks e [] s = s"
| "base_ticks e ((r, now) # ts) s = base_ticks e ts (refreshBaseData e r now s)"

text \<open>The cache is ready when the handlers' test \<open>!CACHE.data\<close> is false.\<close>

definition ready :: "server \<Rightarrow> bool" where
  "ready s = truthy (data (CACHE s))"

section \<open>Key Store\<close>

text \<open>
  Modelled from the spec: \<open>getKeyByHash\<close> of \<open>db.js\<close>, which is not under
  \<open>src/\<close>. The spec (4.4) calls it a point lookup by hash that returns the record or
  nothing.
\<close>

definition getKeyByHash :: "string \<Rightarrow> server \<Rightarrow> key_record option" where
  "getKeyByHash h s = List.find (\<lambda>r. key_hash r = h) (api_keys s)"

text \<open>
  Modelled from the spec: \<open>insertKey\<close> of \<open>db.js\<close>, which is not under \<open>src/\<close>.
  The spec (3, 4.4) has one record stored per call and no record ever deleted. The caller
  passes no id; the store numbers the records in the order of insertion.
\<close>

record key_fields =
  new_key_hash :: string
  new_plan :: string
  new_status :: string
  new_email :: jsval
  new_stripe_customer_id :: jsval
  new_stripe_subscription_id :: jsval

definition insertKey :: "key_fields \<Rightarrow> server \<Rightarrow> server" where
  "insertKey f s =
     s\<lparr>api_keys := api_keys s @
        [\<lparr>id_key = Suc (length (api_keys s)), key_hash = new_key_hash f, plan = new_plan f,
          status = new_status f, email = new_email f,
          stripe_customer_id = new_stripe_customer_id f,
          stripe_subscription_id = new_stripe_subscription_id f\<rparr>]\<rparr>"

text \<open>
  Modelled from the spec: \<open>updateKeySubscription\<close> of \<open>db.js\<close>, which is not under
  \<open>src/\<close>. The spec (4.4) has it set the status of the records that match both the
  customer and the subscription identifier, and do nothing when none matches.
\<close>

definition updateKeySubscription :: "jsval \<Rightarrow> jsval \<Rightarrow> string \<Rightarrow> server \<Rightarrow> server" where
  "updateKeySubscription customer subscription st s =
     s\<lparr>api_keys :=
         map (\<lambda>r. if stripe_customer_id r = customer \<and> stripe_subscription_id r = subscription
                  then r\<lparr>status := st\<rparr> else r)
             (api_keys s)\<rparr>"

text \<open>
  Modelled from the spec: \<open>addAlert\<close> of \<open>db.js\<close>, which is not under \<open>src/\<close>.
  The spec (3) has alert subscriptions purely additive.
\<close>

definition addAlert :: "alert \<Rightarrow> server \<Rightarrow> server" where
  "addAlert a s = s\<lparr>alerts := alerts s @ [a]\<rparr>"

section \<open>HTTP handlers\<close>

text \<open>
  What a handler does to the request: it writes a JSON or a text response with a status,
  or it throws (an \<open>async\<close> handler: its promise rejects) before writing one.
\<close>

datatype reply = Json nat jsval | Text nat string | Unhandled error

text \<open>The middleware either answers itself or calls \<open>next()\<close> with \<open>req.apiKey\<close> set.\<close>

datatype gate = Respond reply | Next key_record

definition startsWith :: "string \<Rightarrow> string \<Rightarrow> bool" where
  "startsWith s p = (take (length p) s = p)"

text \<open>
  \<open>hashKey\<close> (of \<open>utils.js\<close>) is a parameter. The argument \<open>authorization\<close> is
  \<open>req.headers.authorization\<close>, \<open>None\<close> when the header is absent.
\<close>

definition requireKey :: "(string \<Rightarrow> string) \<Rightarrow> string option \<Rightarrow> server \<Rightarrow> gate \<times> server" where
  "requireKey hashKey authorization s =
     (let auth = (case authorization of None \<Rightarrow> [] | Some h \<Rightarrow> if h = [] then [] else h);
          token = (if startsWith auth ''Bearer '' then Some (drop 7 auth) else None)
      in case token of
           None \<Rightarrow> (Respond (Json 401 (JObj [(''error'', JStr ''Missing API key'')])), s)
         | Some t \<Rightarrow>
             if t = [] then (Respond (Json 401 (JObj [(''error'', JStr ''Missing API key'')])), s)
             else (case getKeyByHash (hashKey t) s of
                     None \<Rightarrow> (Respond (Json 403 (JObj [(''error'', JStr ''Invalid API key'')])), s)
                   | Some record \<Rightarrow>
                       if status record \<noteq> ''active''
                       then (Respond (Json 403 (JObj [(''error'', JStr ''Invalid API key'')])), s)
                       else (Next record, s)))"

text \<open>Decimal numerals, the names of the index properties of arrays and strings.\<close>

fun decimal :: "nat \<Rightarrow> string" where
  "decimal n =
     (if n < 10 then [char_of (48 + n)]
      else decimal (n div 10) @ [char_of (48 + n mod 10)])"

text \<open>The own enumerable properties that \<open>{...x}\<close> copies.\<close>

fun spread :: "jsval \<Rightarrow> (string \<times> jsval) list" where
  "spread (JObj ps) = ps"
| "spread (JArr xs ps) = zip (map decimal [0..<length xs]) xs @ ps"
| "spread (JStr cs) = zip (map decimal [0..<length cs]) (map (\<lambda>c. JStr [c]) cs)"
| "spread Undefined = []"
| "spread JNull = []"
| "spread (JBool b) = []"
| "spread (JNum x) = []"

text \<open>\<open>GET /public/index\<close>; \<open>signalFromScore\<close> (of \<open>utils.js\<close>) is a parameter.\<close>

definition public_index :: "(jsval \<Rightarrow> jsval) \<Rightarrow> server \<Rightarrow> reply" where
  "public_index signalFromScore s =
     (if \<not> truthy (data (CACHE s)) then Json 503 (JObj [(''error'', JStr ''Index not ready'')])
      else
        (case get_prop (data (CACHE s)) ''score'' of
           Inl err \<Rightarrow> Unhandled err
         | Inr score \<Rightarrow>
             Json 200 (JObj
               (put (put (put (spread (data (CACHE s)))
                  ''signal'' (signalFromScore (or_else score (JNum 0))))
                  ''dataUpdatedAt'' (dataUpdatedAt (CACHE s)))
                  ''marketsUpdatedAt'' (marketsUpdatedAt (CACHE s))))))"

text \<open>\<open>POST /v1/alerts/subscribe\<close>, behind \<open>requireKey\<close>; \<open>body\<close> is \<open>req.body\<close>.\<close>

definition alerts_subscribe ::
  "(string \<Rightarrow> string) \<Rightarrow> string option \<Rightarrow> jsval \<Rightarrow> server \<Rightarrow> reply \<times> server" where
  "alerts_subscribe hashKey authorization req_body s =
     (case requireKey hashKey authorization s of
        (Respond r, s1) \<Rightarrow> (r, s1)
      | (Next apiKey, s1) \<Rightarrow>
          (let b = or_else req_body (JObj []) in
           case get_prop b ''email'' of
             Inl err \<Rightarrow> (Unhandled err, s1)
           | Inr email' \<Rightarrow>
               (case get_prop b ''telegramChatId'' of
                  Inl err \<Rightarrow> (Unhandled err, s1)
                | Inr telegramChatId \<Rightarrow>
                    if \<not> truthy email' \<and> \<not> truthy telegramChatId
                    then (Json 400 (JObj [(''error'', JStr ''Provide email or telegramChatId'')]), s1)
                    else (Json 200 (JObj [(''ok'', JBool True)]),
                          addAlert \<lparr>api_key_id = id_key apiKey, alert_email = email',
                                    telegram_chat_id = or_else telegramChatId JNull\<rparr> s1))))"

text \<open>
  A billing event as \<open>stripe.webhooks.constructEvent\<close> returns it: \<open>event.type\<close> and
  the properties of the object \<open>event.data.object\<close>.
\<close>

record event =
  event_type :: string
  data_object :: "(string \<times> jsval) list"

record webhook_request =
  rawBody :: "string option"
  stripe_signature :: "string option"

definition mail_request :: "string \<Rightarrow> jsval \<Rightarrow> string \<Rightarrow> request" where
  "mail_request mailer customer_email key =
     \<lparr>url = mailer, http_method = ''POST'',
      body = JObj [(''to'', customer_email), (''subject'', JStr ''Your ICI.ndex API key''),
                   (''html'', JStr (''<p>Your API key: <strong>'' @ key @ ''</strong></p><p>Keep it safe.</p>''))]\<rparr>"

text \<open>
  \<open>POST /v1/webhook\<close>. Parameters: \<open>hashKey\<close>; \<open>constructEvent\<close> of the billing
  library, which returns the verified event or throws an error with a message; \<open>key\<close>,
  what \<open>generateKey()\<close> returns in this request; \<open>mail\<close>, what the \<open>fetch\<close> to
  the mailer comes back with if it is made (its response is not looked at).
\<close>

definition webhook ::
  "(string \<Rightarrow> string) \<Rightarrow> (string option \<Rightarrow> string option \<Rightarrow> string option \<Rightarrow> string + event) \<Rightarrow>
   env \<Rightarrow> string \<Rightarrow> unit fetch_result \<Rightarrow> webhook_request \<Rightarrow> server \<Rightarrow> reply \<times> server" where
  "webhook hashKey constructEvent e key mail req s =
     (case constructEvent (rawBody req) (stripe_signature req) (STRIPE_WEBHOOK_SECRET e) of
        Inl message \<Rightarrow> (Text 400 (''Webhook Error: '' @ message), s)
      | Inr ev \<Rightarrow>
          (let completed = (event_type ev = ''checkout.session.completed'');
               session = data_object ev;
               s1 = (if completed
                     then insertKey
                            \<lparr>new_key_hash = hashKey key, new_plan = ''pro'', new_status = ''active'',
                             new_email = or_else (lookup session ''customer_email'') JNull,
                             new_stripe_customer_id = or_else (lookup session ''customer'') JNull,
                             new_stripe_subscription_id = or_else (lookup session ''subscription'') JNull\<rparr> s
                     else s);
               mailer = (case MAILER_URL e of None \<Rightarrow> [] | Some u \<Rightarrow> u);
               mailing = (completed \<and> truthy (lookup session ''customer_email'') \<and> mailer \<noteq> []);
               s2 = (if mailing
                     then s1\<lparr>sent := sent s1 @ [mail_request mailer (lookup session ''customer_email'') key]\<rparr>
                     else s1)
           in if mailing \<and> mail = NetworkError then (Unhandled NetworkFailure, s2)
              else
                (Json 200 (JObj [(''received'', JBool True)]),
                 if event_type ev = ''customer.subscription.deleted''
                 then updateKeySubscription (lookup (data_object ev) ''customer'')
                        (lookup (data_object ev) ''id'') ''inactive'' s2
                 else s2)))"

section \<open>Example inputs\<close>

definition example_env :: env where
  "example_env = \<lparr>ENV_INDEX_JSON_URL = None, MAILER_URL = Some ''https://mailer.example/send'',
                  STRIPE_WEBHOOK_SECRET = Some ''whsec_test''\<rparr>"

definition example_doc :: jsval where
  "example_doc = JObj [(''score'', JNum 62), (''updatedAt'', JStr ''2024-05-01''),
                       (''history'', JArr [JNum 60, JNum 61] []), (''drivers'', JObj [])]"

definition example_markets :: market_responses where
  "example_markets =
     \<lparr>coingecko = Response 200 (Some (JObj [(''bitcoin'', JObj [(''usd'', JNum 67000), (''usd_market_cap'', JNum 1300000000000)])])),
      gold_api = Response 200 (Some (JObj [(''price'', JNum 2350)])),
      stooq = Response 200 (Some ''Symbol,Date,Time,Open,High,Low,Close,Volume'')\<rparr>"

definition example_ready :: server where
  "example_ready =
     \<lparr>CACHE = \<lparr>data = example_doc, dataUpdatedAt = JStr ''2024-05-01T00:00:00.000Z'',
               marketsUpdatedAt = JNull\<rparr>,
      api_keys = [], alerts = [], sent = []\<rparr>"

definition example_hash :: "string \<Rightarrow> string" where
  "example_hash t = ''sha256:'' @ t"

definition example_keys :: server where
  "example_keys =
     \<lparr>CACHE = CACHE_init,
      api_keys =
        [\<lparr>id_key = 1, key_hash = ''sha256:ici_abc123'', plan = ''pro'', status = ''active'',
          email = JStr ''a@b.com'', stripe_customer_id = JStr ''cus_1'',
          stripe_subscription_id = JStr ''sub_1''\<rparr>,
         \<lparr>id_key = 2, key_hash = ''sha256:ici_old456'', plan = ''pro'', status = ''inactive'',
          email = JNull, stripe_customer_id = JStr ''cus_2'',
          stripe_subscription_id = JStr ''sub_2''\<rparr>],
      alerts = [], sent = []\<rparr>"

text \<open>
  A stand-in for the billing library's verification: it accepts one signature under one
  secret, and reads the event off the body.
\<close>

definition example_constructEvent :: "string option \<Rightarrow> string option \<Rightarrow> string option \<Rightarrow> string + event" where
  "example_constructEvent raw signature secret =
     (if signature = Some ''t=1,v1=good'' \<and> secret = Some ''whsec_test'' then
        (case raw of
           None \<Rightarrow> Inl ''No webhook payload was provided.''
         | Some b \<Rightarrow>
             if b = ''checkout''
             then Inr \<lparr>event_type = ''checkout.session.completed'',
                       data_object = [(''id'', JStr ''cs_9''), (''customer_email'', JStr ''a@b.com''),
                                      (''customer'', JStr ''cus_9''), (''subscription'', JStr ''sub_9'')]\<rparr>
             else Inr \<lparr>event_type = b, data_object = [(''id'', JStr ''sub_1''), (''customer'', JStr ''cus_1'')]\<rparr>)
      else Inl ''No signatures found matching the expected signature for payload.'')"

section \<open>Properties of objects\<close>

lemma put_other: "k' \<noteq> k \<Longrightarrow> lookup (put ps k v) k' = lookup ps k'"
  by (induction ps) (auto simp: lookup_def)

lemma put_same: "lookup (put ps k v) k = v"
  by (induction ps) (auto simp: lookup_def)

lemma put_filter: "filter (\<lambda>p. fst p \<noteq> k) (put ps k v) = filter (\<lambda>p. fst p \<noteq> k) ps"
  by (induction ps) auto

section \<open>Base refresh\<close>

lemma fetchJson_Inr: "fetchJson r = Inr p \<longleftrightarrow> (\<exists>st. r = Response st (Some p) \<and> ok st)"
  by (cases r) (auto split: option.splits)

lemma refreshBaseData_CACHE:
  "CACHE (refreshBaseData e r now s) =
     (case fetchJson r of
        Inr p \<Rightarrow> (CACHE s)\<lparr>data := p, dataUpdatedAt := JStr now\<rparr>
      | Inl err \<Rightarrow> CACHE s)"
  by (simp add: refreshBaseData_def Let_def split: sum.split)

lemma base_ticks_ready:
  "(\<forall>(r, now) \<in> set ts. \<forall>p. fetchJson r = Inr p \<longrightarrow> truthy p) \<Longrightarrow> ready s
     \<Longrightarrow> ready (base_ticks e ts s)"
proof (induction ts arbitrary: s)
  case Nil
  then show ?case by simp
next
  case (Cons t ts)
  obtain r now where t: "t = (r, now)" by (cases t)
  have "ready (refreshBaseData e r now s)"
    using Cons.prems t by (auto simp: ready_def refreshBaseData_CACHE split: sum.split)
  with Cons t show ?case by simp
qed

text \<open>
  Claim C1, as stated, fails: a base refresh that succeeds with the JSON payload
  \<open>null\<close> (status 200) stores \<open>null\<close> in \<open>CACHE.data\<close>, so a cache that was ready is
  not ready afterwards.
\<close>

theorem ready_lost_on_null_payload:
  "ready (base_ticks example_env [(Response 200 (Some example_doc), ''t1'')] server_init) \<and>
   \<not> ready (base_ticks example_env
              [(Response 200 (Some example_doc), ''t1''), (Response 200 (Some JNull), ''t2'')]
              server_init) \<and>
   data (CACHE (refreshBaseData example_env (Response 200 (Some JNull)) ''t2'' example_ready)) = JNull"
  by (simp add: ready_def refreshBaseData_CACHE ok_def example_doc_def example_ready_def)

text \<open>
  Claim C1, amended: a base refresh that fails (network error, non-success status, or a
  body that is not JSON) leaves the whole \<open>CACHE\<close>, so \<open>data\<close> and
  \<open>dataUpdatedAt\<close>, as it was; a refresh that succeeds stores the payload as it came
  and the time of the tick; and over every sequence of base-refresh outcomes in which
  each payload that arrives with a success status is truthy (every JSON object is), a
  cache that is ready stays ready.
\<close>

theorem base_refresh_keeps_ready:
  "CACHE (refreshBaseData e NetworkError now s) = CACHE s \<and>
   (\<not> ok st \<longrightarrow> CACHE (refreshBaseData e (Response st b) now s) = CACHE s) \<and>
   CACHE (refreshBaseData e (Response st' None) now s) = CACHE s \<and>
   (ok st' \<longrightarrow> CACHE (refreshBaseData e (Response st' (Some p)) now s)
                 = (CACHE s)\<lparr>data := p, dataUpdatedAt := JStr now\<rparr>) \<and>
   ((\<forall>(r, t) \<in> set ts. \<forall>c q. r = Response c (Some q) \<and> ok c \<longrightarrow> truthy q) \<and> ready s
      \<longrightarrow> ready (base_ticks e ts s))"
proof -
  have "ready (base_ticks e ts s)"
    if "\<forall>(r, t) \<in> set ts. \<forall>c q. r = Response c (Some q) \<and> ok c \<longrightarrow> truthy q" and "ready s"
  proof (rule base_ticks_ready)
    show "\<forall>(r, now) \<in> set ts. \<forall>p. fetchJson r = Inr p \<longrightarrow> truthy p"
      using that(1) by (auto simp: fetchJson_Inr)
  qed (rule that(2))
  then show ?thesis
    by (simp add: refreshBaseData_CACHE)
qed

theorem base_refresh_keeps_ready_witness:
  "\<not> ok 404 \<and> ok 200 \<and> ready example_ready \<and>
   CACHE (refreshBaseData example_env NetworkError ''t2'' example_ready) = CACHE example_ready \<and>
   CACHE (refreshBaseData example_env (Response 404 (Some JNull)) ''t2'' example_ready)
     = CACHE example_ready \<and>
   CACHE (refreshBaseData example_env (Response 200 None) ''t2'' example_ready)
     = CACHE example_ready \<and>
   CACHE (refreshBaseData example_env (Response 200 (Some (JObj [(''score'', JNum 70)]))) ''t2''
            example_ready)
     = \<lparr>data = JObj [(''score'', JNum 70)], dataUpdatedAt = JStr ''t2'', marketsUpdatedAt = JNull\<rparr> \<and>
   ready (base_ticks example_env
            [(NetworkError, ''t2''), (Response 500 None, ''t3''), (Response 200 (Some (JObj [])), ''t4'')]
            example_ready)"
  using base_refresh_keeps_ready [of example_env "''t2''" example_ready 404 "Some JNull" 200
          "JObj [(''score'', JNum 70)]"
          "[(NetworkError, ''t2''), (Response 500 None, ''t3''), (Response 200 (Some (JObj [])), ''t4'')]"]
  by (simp add: ok_def ready_def example_ready_def example_doc_def)

section \<open>Market refresh\<close>

lemma fetchSp500Market_total:
  "\<exists>price. fetchSp500Market number r
      = Inr (JObj [(''price'', price), (''marketCap'', JNull), (''marketCapProxy'', JStr ''SPY'')])"
  by (simp add: fetchSp500Market_def Let_def)

lemma refreshMarkets_abandoned:
  "Promise_all (fetchBtcMarket (coingecko r)) (fetchGoldMarket (gold_api r))
     (fetchSp500Market number (stooq r)) = Inl err
   \<Longrightarrow> CACHE (refreshMarkets number r now s) = CACHE s"
  by (simp add: refreshMarkets_def Let_def)

lemma set_prop_get_other:
  "set_prop d k v = Inr d' \<Longrightarrow> k' \<noteq> k \<Longrightarrow> get_prop d' k' = get_prop d k'"
  by (cases d) (auto simp: put_other)

lemma set_prop_spread_others:
  "set_prop d k v = Inr d' \<Longrightarrow>
     filter (\<lambda>p. fst p \<noteq> k) (spread d') = filter (\<lambda>p. fst p \<noteq> k) (spread d)"
  by (cases d) (auto simp: put_filter)

lemma refreshMarkets_data:
  "data (CACHE (refreshMarkets number r now s)) = data (CACHE s) \<or>
   (\<exists>v. set_prop (data (CACHE s)) ''markets'' v = Inr (data (CACHE (refreshMarkets number r now s))))"
  by (auto simp: refreshMarkets_def Let_def split: sum.splits)

lemma refreshMarkets_rest:
  "dataUpdatedAt (CACHE (refreshMarkets number r now s)) = dataUpdatedAt (CACHE s) \<and>
   api_keys (refreshMarkets number r now s) = api_keys s \<and>
   alerts (refreshMarkets number r now s) = alerts s"
  by (auto simp: refreshMarkets_def Let_def split: sum.splits)

lemma refreshMarkets_sent:
  "truthy (data (CACHE s)) \<Longrightarrow>
     sent (refreshMarkets number r now s) = sent s @ [GET btc_url, GET gold_url, GET spx_url]"
  by (auto simp: refreshMarkets_def Let_def split: sum.splits)

text \<open>
  Claim C2, as stated, fails for the third provider: \<open>fetchSp500Market\<close> catches
  whatever \<open>fetchSpx\<close> throws, and \<open>fetchSpx\<close> does not look at the status. With
  the sp500 fetch failing at the network, or answering 500, and the other two fetches
  succeeding, the tick is not abandoned: the markets and \<open>marketsUpdatedAt\<close> are
  written.
\<close>

theorem sp500_failure_does_not_abandon_tick:
  "stooq (example_markets\<lparr>stooq := NetworkError\<rparr>) = NetworkError \<and>
   marketsUpdatedAt (CACHE (refreshMarkets (\<lambda>t. None) (example_markets\<lparr>stooq := NetworkError\<rparr>) ''t2'' example_ready))
     \<noteq> marketsUpdatedAt (CACHE example_ready) \<and>
   get_prop (data (CACHE (refreshMarkets (\<lambda>t. None) (example_markets\<lparr>stooq := NetworkError\<rparr>) ''t2'' example_ready))) ''markets''
     \<noteq> get_prop (data (CACHE example_ready)) ''markets'' \<and>
   \<not> ok 500 \<and>
   marketsUpdatedAt (CACHE (refreshMarkets (\<lambda>t. None) (example_markets\<lparr>stooq := Response 500 (Some [])\<rparr>) ''t2'' example_ready))
     \<noteq> marketsUpdatedAt (CACHE example_ready)"
  by (simp add: refreshMarkets_def example_markets_def example_ready_def example_doc_def
        fetchBtcMarket_def fetchGoldMarket_def fetchSp500Market_def fetchSpx_def Promise_all_def
        or_else_def lookup_def ok_def Let_def trim_def)

text \<open>
  Claim C2, amended: in every market-refresh tick in which the btc fetch or the gold fetch
  fails with a network error or a non-success HTTP status, the tick is abandoned as a
  whole and \<open>CACHE\<close> (the document with its markets, and both timestamps) is after
  the tick what it was before. A failure of the sp500 fetch does not abandon the tick:
  \<open>fetchSp500Market\<close> never fails, and reports the price \<open>null\<close> when the fetch
  fails at the network.
\<close>

theorem market_tick_abandoned_on_btc_or_gold_failure:
  "(coingecko r = NetworkError \<or> (\<exists>st b. coingecko r = Response st b \<and> \<not> ok st) \<or>
    gold_api r = NetworkError \<or> (\<exists>st b. gold_api r = Response st b \<and> \<not> ok st)
      \<longrightarrow> CACHE (refreshMarkets number r now s) = CACHE s) \<and>
   fetchSp500Market number NetworkError
      = Inr (JObj [(''price'', JNull), (''marketCap'', JNull), (''marketCapProxy'', JStr ''SPY'')]) \<and>
   (\<exists>price. fetchSp500Market number (stooq r)
      = Inr (JObj [(''price'', price), (''marketCap'', JNull), (''marketCapProxy'', JStr ''SPY'')]))"
proof -
  have "CACHE (refreshMarkets number r now s) = CACHE s"
    if "coingecko r = NetworkError \<or> (\<exists>st b. coingecko r = Response st b \<and> \<not> ok st) \<or>
        gold_api r = NetworkError \<or> (\<exists>st b. gold_api r = Response st b \<and> \<not> ok st)"
  proof -
    from that have "(\<exists>e. fetchJson (coingecko r) = Inl e) \<or> (\<exists>e. fetchJson (gold_api r) = Inl e)"
      by auto
    then have "(\<exists>e. fetchBtcMarket (coingecko r) = Inl e) \<or> (\<exists>e. fetchGoldMarket (gold_api r) = Inl e)"
      by (auto simp: fetchBtcMarket_def fetchGoldMarket_def)
    then have "\<exists>err. Promise_all (fetchBtcMarket (coingecko r)) (fetchGoldMarket (gold_api r))
         (fetchSp500Market number (stooq r)) = Inl err"
      by (cases "fetchBtcMarket (coingecko r)") (auto simp: Promise_all_def)
    then obtain err where
      "Promise_all (fetchBtcMarket (coingecko r)) (fetchGoldMarket (gold_api r))
         (fetchSp500Market number (stooq r)) = Inl err" ..
    then show ?thesis by (rule refreshMarkets_abandoned)
  qed
  moreover have "fetchSp500Market number NetworkError
      = Inr (JObj [(''price'', JNull), (''marketCap'', JNull), (''marketCapProxy'', JStr ''SPY'')])"
    by (simp add: fetchSp500Market_def fetchSpx_def)
  ultimately show ?thesis
    using fetchSp500Market_total by blast
qed

theorem market_tick_abandoned_witness:
  "gold_api (example_markets\<lparr>gold_api := Response 503 None\<rparr>) = Response 503 None \<and> \<not> ok 503 \<and>
   CACHE (refreshMarkets (\<lambda>t. None) (example_markets\<lparr>gold_api := Response 503 None\<rparr>) ''t2'' example_ready)
     = CACHE example_ready"
  using market_tick_abandoned_on_btc_or_gold_failure
          [of "example_markets\<lparr>gold_api := Response 503 None\<rparr>" "\<lambda>t. None" "''t2''" example_ready]
  by (simp add: ok_def example_markets_def)

text \<open>
  Claim C3: in every state in which a base document is present, a market refresh leaves
  every property of the cached document other than \<open>markets\<close> as it was (read by
  name, and as the list of own properties in order), and leaves \<open>dataUpdatedAt\<close> as
  it was; when the three fetchers return and the document is an object, the tick writes
  exactly the \<open>markets\<close> property and \<open>marketsUpdatedAt\<close>.
\<close>

theorem market_refresh_frame:
  "truthy (data (CACHE s)) \<longrightarrow>
     (\<forall>k. k \<noteq> ''markets'' \<longrightarrow>
        get_prop (data (CACHE (refreshMarkets number r now s))) k = get_prop (data (CACHE s)) k) \<and>
     filter (\<lambda>p. fst p \<noteq> ''markets'') (spread (data (CACHE (refreshMarkets number r now s))))
       = filter (\<lambda>p. fst p \<noteq> ''markets'') (spread (data (CACHE s))) \<and>
     dataUpdatedAt (CACHE (refreshMarkets number r now s)) = dataUpdatedAt (CACHE s) \<and>
     (data (CACHE s) = JObj ps \<and> fetchBtcMarket (coingecko r) = Inr btc \<and>
      fetchGoldMarket (gold_api r) = Inr gold \<and> fetchSp500Market number (stooq r) = Inr sp500
        \<longrightarrow> CACHE (refreshMarkets number r now s)
              = (CACHE s)\<lparr>data := JObj (put ps ''markets''
                                          (JObj [(''btc'', btc), (''gold'', gold), (''sp500'', sp500)])),
                          marketsUpdatedAt := JStr now\<rparr>)"
proof -
  have 1: "get_prop (data (CACHE (refreshMarkets number r now s))) k = get_prop (data (CACHE s)) k"
    if "k \<noteq> ''markets''" for k
    using refreshMarkets_data [of number r now s] that by (auto dest: set_prop_get_other)
  have 2: "filter (\<lambda>p. fst p \<noteq> ''markets'') (spread (data (CACHE (refreshMarkets number r now s))))
       = filter (\<lambda>p. fst p \<noteq> ''markets'') (spread (data (CACHE s)))"
    using refreshMarkets_data [of number r now s] by (auto dest: set_prop_spread_others)
  have 3: "CACHE (refreshMarkets number r now s)
              = (CACHE s)\<lparr>data := JObj (put ps ''markets''
                                          (JObj [(''btc'', btc), (''gold'', gold), (''sp500'', sp500)])),
                          marketsUpdatedAt := JStr now\<rparr>"
    if "data (CACHE s) = JObj ps" "fetchBtcMarket (coingecko r) = Inr btc"
       "fetchGoldMarket (gold_api r) = Inr gold" "fetchSp500Market number (stooq r) = Inr sp500"
    using that by (simp add: refreshMarkets_def Promise_all_def Let_def)
  show ?thesis
    using 1 2 3 refreshMarkets_rest [of number r now s] by blast
qed

theorem market_refresh_frame_witness:
  "truthy (data (CACHE example_ready)) \<and>
   get_prop (data (CACHE (refreshMarkets (\<lambda>t. None) example_markets ''t2'' example_ready))) ''score''
     = Inr (JNum 62) \<and>
   dataUpdatedAt (CACHE (refreshMarkets (\<lambda>t. None) example_markets ''t2'' example_ready))
     = JStr ''2024-05-01T00:00:00.000Z'' \<and>
   CACHE (refreshMarkets (\<lambda>t. None) example_markets ''t2'' example_ready)
     = \<lparr>data = JObj [(''score'', JNum 62), (''updatedAt'', JStr ''2024-05-01''),
                      (''history'', JArr [JNum 60, JNum 61] []), (''drivers'', JObj []),
                      (''markets'', JObj
                         [(''btc'', JObj [(''price'', JNum 67000), (''marketCap'', JNum 1300000000000)]),
                          (''gold'', JObj [(''price'', JNum 2350), (''marketCap'', JNull),
                                           (''marketCapEstimate'', JBool True)]),
                          (''sp500'', JObj [(''price'', JNull), (''marketCap'', JNull),
                                            (''marketCapProxy'', JStr ''SPY'')])])],
        dataUpdatedAt = JStr ''2024-05-01T00:00:00.000Z'', marketsUpdatedAt = JStr ''t2''\<rparr>"
  using market_refresh_frame [of example_ready "\<lambda>t. None" example_markets "''t2''"
          "[(''score'', JNum 62), (''updatedAt'', JStr ''2024-05-01''),
            (''history'', JArr [JNum 60, JNum 61] []), (''drivers'', JObj [])]"
          "JObj [(''price'', JNum 67000), (''marketCap'', JNum 1300000000000)]"
          "JObj [(''price'', JNum 2350), (''marketCap'', JNull), (''marketCapEstimate'', JBool True)]"
          "JObj [(''price'', JNull), (''marketCap'', JNull), (''marketCapProxy'', JStr ''SPY'')]"]
  by (simp add: example_ready_def example_doc_def example_markets_def fetchBtcMarket_def
        fetchGoldMarket_def fetchSp500Market_def fetchSpx_def or_else_def lookup_def ok_def
        Let_def trim_def is_space_def)

text \<open>
  Claim C4: a market refresh run while \<open>CACHE.data\<close> is \<open>null\<close> changes nothing:
  the state after it is the state before it, so no request is sent and \<open>CACHE\<close> is
  untouched.
\<close>

theorem market_refresh_without_base_is_noop:
  "data (CACHE s) = JNull \<Longrightarrow>
     refreshMarkets number r now s = s \<and> sent (refreshMarkets number r now s) = sent s \<and>
     CACHE (refreshMarkets number r now s) = CACHE s"
  by (simp add: refreshMarkets_def)

theorem market_refresh_without_base_witness:
  "data (CACHE server_init) = JNull \<and>
   refreshMarkets (\<lambda>t. None) example_markets ''t1'' server_init = server_init \<and>
   sent (refreshMarkets (\<lambda>t. None) example_markets ''t1'' server_init) = []"
  using market_refresh_without_base_is_noop [of server_init "\<lambda>t. None" example_markets "''t1''"]
  by (simp add: server_init_def CACHE_init_def)

text \<open>
  Claim C9: a base refresh that succeeds replaces the cached document by the payload and
  keeps \<open>marketsUpdatedAt\<close>; the \<open>markets\<close> property that \<open>GET /public/index\<close>
  then serves is the payload's own (none, when the upstream document has none), next to
  the time of the last market refresh.
\<close>

theorem base_refresh_discards_markets:
  "ok st \<longrightarrow>
     CACHE (refreshBaseData e (Response st (Some p)) now s)
       = \<lparr>data = p, dataUpdatedAt = JStr now, marketsUpdatedAt = marketsUpdatedAt (CACHE s)\<rparr> \<and>
     (p = JObj ps \<longrightarrow>
        (\<exists>served. public_index signalFromScore (refreshBaseData e (Response st (Some p)) now s)
                    = Json 200 (JObj served) \<and>
                  lookup served ''markets'' = lookup ps ''markets'' \<and>
                  lookup served ''marketsUpdatedAt'' = marketsUpdatedAt (CACHE s)))"
  by (simp add: refreshBaseData_CACHE public_index_def put_other put_same)

theorem base_refresh_discards_markets_witness:
  "ok 200 \<and>
   get_prop (data (CACHE (refreshMarkets (\<lambda>t. None) example_markets ''t2'' example_ready))) ''markets''
     \<noteq> Inr Undefined \<and>
   CACHE (refreshBaseData example_env (Response 200 (Some example_doc)) ''t3''
            (refreshMarkets (\<lambda>t. None) example_markets ''t2'' example_ready))
     = \<lparr>data = example_doc, dataUpdatedAt = JStr ''t3'', marketsUpdatedAt = JStr ''t2''\<rparr> \<and>
   public_index (\<lambda>v. JStr ''neutral'')
       (refreshBaseData example_env (Response 200 (Some example_doc)) ''t3''
          (refreshMarkets (\<lambda>t. None) example_markets ''t2'' example_ready))
     = Json 200 (JObj [(''score'', JNum 62), (''updatedAt'', JStr ''2024-05-01''),
                       (''history'', JArr [JNum 60, JNum 61] []), (''drivers'', JObj []),
                       (''signal'', JStr ''neutral''), (''dataUpdatedAt'', JStr ''t3''),
                       (''marketsUpdatedAt'', JStr ''t2'')])"
  using base_refresh_discards_markets [of 200 example_env example_doc "''t3''"
          "refreshMarkets (\<lambda>t. None) example_markets ''t2'' example_ready"
          "[(''score'', JNum 62), (''updatedAt'', JStr ''2024-05-01''),
            (''history'', JArr [JNum 60, JNum 61] []), (''drivers'', JObj [])]"
          "\<lambda>v. JStr ''neutral''"]
  by (simp add: example_ready_def example_doc_def example_markets_def refreshMarkets_def
        fetchBtcMarket_def fetchGoldMarket_def fetchSp500Market_def fetchSpx_def Promise_all_def
        or_else_def lookup_def ok_def Let_def trim_def is_space_def public_index_def
        refreshBaseData_CACHE)

section \<open>Auth Gate\<close>

lemma requireKey_state: "snd (requireKey hashKey authorization s) = s"
  by (simp add: requireKey_def Let_def split: option.splits)

lemma getKeyByHash_None: "getKeyByHash h s = None \<longleftrightarrow> h \<notin> key_hash ` set (api_keys s)"
  by (auto simp: getKeyByHash_def find_None_iff)

lemma requireKey_bearer:
  "t \<noteq> [] \<Longrightarrow> requireKey hashKey (Some (''Bearer '' @ t)) s =
     (case getKeyByHash (hashKey t) s of
        None \<Rightarrow> (Respond (Json 403 (JObj [(''error'', JStr ''Invalid API key'')])), s)
      | Some record \<Rightarrow>
          if status record \<noteq> ''active''
          then (Respond (Json 403 (JObj [(''error'', JStr ''Invalid API key'')])), s)
          else (Next record, s))"
  by (simp add: requireKey_def startsWith_def)

lemma requireKey_missing:
  "authorization = None \<or> authorization = Some ''Bearer '' \<or>
   (\<exists>h. authorization = Some h \<and> \<not> startsWith h ''Bearer '')
   \<Longrightarrow> requireKey hashKey authorization s =
        (Respond (Json 401 (JObj [(''error'', JStr ''Missing API key'')])), s)"
  by (auto simp: requireKey_def startsWith_def)

lemma alerts_subscribe_rejected:
  "fst (requireKey hashKey authorization s) = Respond rp
     \<Longrightarrow> alerts_subscribe hashKey authorization req_body s = (rp, s)"
  using requireKey_state [of hashKey authorization s]
  by (cases "requireKey hashKey authorization s") (simp add: alerts_subscribe_def)

text \<open>
  Claim C5: with no bearer token (no header, a header without the prefix, or the prefix
  alone) the gate answers 401; with a token whose hash is not in the Key Store, or whose
  record has a status other than \<open>active\<close>, it answers 403; with a token that resolves
  to an active record it calls the handler with that record. When the gate answers, the
  handler behind it (here \<open>POST /v1/alerts/subscribe\<close>) does not run, and in every
  case the state, the Key Store with it, is after the gate what it was before.
\<close>

theorem auth_gate:
  "(authorization = None \<or> authorization = Some ''Bearer '' \<or>
    (\<exists>h. authorization = Some h \<and> \<not> startsWith h ''Bearer '')
      \<longrightarrow> requireKey hashKey authorization s
            = (Respond (Json 401 (JObj [(''error'', JStr ''Missing API key'')])), s)) \<and>
   (t \<noteq> [] \<and> hashKey t \<notin> key_hash ` set (api_keys s)
      \<longrightarrow> requireKey hashKey (Some (''Bearer '' @ t)) s
            = (Respond (Json 403 (JObj [(''error'', JStr ''Invalid API key'')])), s)) \<and>
   (t \<noteq> [] \<and> getKeyByHash (hashKey t) s = Some record \<and> status record \<noteq> ''active''
      \<longrightarrow> requireKey hashKey (Some (''Bearer '' @ t)) s
            = (Respond (Json 403 (JObj [(''error'', JStr ''Invalid API key'')])), s)) \<and>
   (t \<noteq> [] \<and> getKeyByHash (hashKey t) s = Some record \<and> status record = ''active''
      \<longrightarrow> requireKey hashKey (Some (''Bearer '' @ t)) s = (Next record, s)) \<and>
   (fst (requireKey hashKey authorization s) = Respond rp
      \<longrightarrow> alerts_subscribe hashKey authorization req_body s = (rp, s)) \<and>
   snd (requireKey hashKey authorization s) = s"
proof -
  have "requireKey hashKey (Some (''Bearer '' @ t)) s
            = (Respond (Json 403 (JObj [(''error'', JStr ''Invalid API key'')])), s)"
    if "t \<noteq> []" "hashKey t \<notin> key_hash ` set (api_keys s)"
    using that getKeyByHash_None [of "hashKey t" s] requireKey_bearer [of t hashKey s] by simp
  then show ?thesis
    using requireKey_missing [of authorization hashKey s] requireKey_bearer [of t hashKey s]
      alerts_subscribe_rejected [of hashKey authorization s rp req_body]
      requireKey_state [of hashKey authorization s]
    by auto
qed

theorem auth_gate_witness:
  "requireKey example_hash None example_keys
     = (Respond (Json 401 (JObj [(''error'', JStr ''Missing API key'')])), example_keys) \<and>
   requireKey example_hash (Some ''Bearer ici_nobody'') example_keys
     = (Respond (Json 403 (JObj [(''error'', JStr ''Invalid API key'')])), example_keys) \<and>
   requireKey example_hash (Some ''Bearer ici_old456'') example_keys
     = (Respond (Json 403 (JObj [(''error'', JStr ''Invalid API key'')])), example_keys) \<and>
   requireKey example_hash (Some ''Bearer ici_abc123'') example_keys
     = (Next \<lparr>id_key = 1, key_hash = ''sha256:ici_abc123'', plan = ''pro'', status = ''active'',
               email = JStr ''a@b.com'', stripe_customer_id = JStr ''cus_1'',
               stripe_subscription_id = JStr ''sub_1''\<rparr>, example_keys) \<and>
   alerts_subscribe example_hash (Some ''Bearer ici_nobody'') (JObj [(''email'', JStr ''a@b.com'')])
       example_keys
     = (Json 403 (JObj [(''error'', JStr ''Invalid API key'')]), example_keys)"
  using auth_gate [of None example_hash example_keys "''ici_nobody''"
                      "\<lparr>id_key = 2, key_hash = ''sha256:ici_old456'', plan = ''pro'',
                        status = ''inactive'', email = JNull, stripe_customer_id = JStr ''cus_2'',
                        stripe_subscription_id = JStr ''sub_2''\<rparr>"
                      "Json 403 (JObj [(''error'', JStr ''Invalid API key'')])"
                      "JObj [(''email'', JStr ''a@b.com'')]"]
        auth_gate [of "Some ''Bearer ici_nobody''" example_hash example_keys "''ici_old456''"
                      "\<lparr>id_key = 2, key_hash = ''sha256:ici_old456'', plan = ''pro'',
                        status = ''inactive'', email = JNull, stripe_customer_id = JStr ''cus_2'',
                        stripe_subscription_id = JStr ''sub_2''\<rparr>"
                      "Json 403 (JObj [(''error'', JStr ''Invalid API key'')])"
                      "JObj [(''email'', JStr ''a@b.com'')]"]
        auth_gate [of None example_hash example_keys "''ici_abc123''"
                      "\<lparr>id_key = 1, key_hash = ''sha256:ici_abc123'', plan = ''pro'',
                        status = ''active'', email = JStr ''a@b.com'',
                        stripe_customer_id = JStr ''cus_1'', stripe_subscription_id = JStr ''sub_1''\<rparr>"
                      "Json 403 (JObj [(''error'', JStr ''Invalid API key'')])"
                      "JObj [(''email'', JStr ''a@b.com'')]"]
  by (simp add: example_hash_def example_keys_def getKeyByHash_def)

text \<open>
  Claim C10: an \<open>Authorization\<close> header that does not begin with \<open>Bearer \<close>
  (capital B, one space) is answered 401 \<open>Missing API key\<close>; the answer is the same
  whatever the hash function and whatever the Key Store holds, so the header value is
  neither hashed nor looked up.
\<close>

theorem non_bearer_authorization_is_missing_key:
  "\<not> startsWith h ''Bearer '' \<Longrightarrow>
     requireKey hashKey (Some h) s
       = (Respond (Json 401 (JObj [(''error'', JStr ''Missing API key'')])), s) \<and>
     requireKey hashKey' (Some h) s = requireKey hashKey (Some h) s \<and>
     fst (requireKey hashKey (Some h) (s\<lparr>api_keys := keys\<rparr>)) = fst (requireKey hashKey (Some h) s)"
  by (simp add: requireKey_missing)

theorem non_bearer_authorization_witness:
  "getKeyByHash (example_hash ''ici_abc123'') example_keys \<noteq> None \<and>
   \<not> startsWith ''ici_abc123'' ''Bearer '' \<and> \<not> startsWith ''bearer ici_abc123'' ''Bearer '' \<and>
   requireKey example_hash (Some ''ici_abc123'') example_keys
     = (Respond (Json 401 (JObj [(''error'', JStr ''Missing API key'')])), example_keys) \<and>
   requireKey example_hash (Some ''bearer ici_abc123'') example_keys
     = (Respond (Json 401 (JObj [(''error'', JStr ''Missing API key'')])), example_keys)"
  using non_bearer_authorization_is_missing_key [of "''ici_abc123''" example_hash example_keys]
        non_bearer_authorization_is_missing_key [of "''bearer ici_abc123''" example_hash example_keys]
  by (simp add: startsWith_def example_hash_def example_keys_def getKeyByHash_def)

section \<open>Alert subscriptions\<close>

lemma lookup_absent: "k \<notin> fst ` set ps \<Longrightarrow> lookup ps k = Undefined"
  by (simp add: lookup_def map_of_eq_None_iff [THEN iffD2])

text \<open>
  Claim C8, as stated, fails in its second half: a body in which \<open>email\<close> is present
  but empty is answered 400, and no alert is added.
\<close>

theorem falsy_field_is_rejected:
  "fst (requireKey example_hash (Some ''Bearer ici_abc123'') example_keys)
     = Next \<lparr>id_key = 1, key_hash = ''sha256:ici_abc123'', plan = ''pro'', status = ''active'',
              email = JStr ''a@b.com'', stripe_customer_id = JStr ''cus_1'',
              stripe_subscription_id = JStr ''sub_1''\<rparr> \<and>
   map_of [(''email'', JStr [])] ''email'' = Some (JStr []) \<and>
   alerts_subscribe example_hash (Some ''Bearer ici_abc123'') (JObj [(''email'', JStr [])]) example_keys
     = (Json 400 (JObj [(''error'', JStr ''Provide email or telegramChatId'')]), example_keys)"
  by (simp add: alerts_subscribe_def requireKey_def startsWith_def example_hash_def example_keys_def
        getKeyByHash_def or_else_def lookup_def)

text \<open>
  Claim C8, amended: for an authenticated request with a JSON object as body, if neither
  \<open>email\<close> nor \<open>telegramChatId\<close> is in the body, or both are falsy (absent,
  \<open>null\<close>, empty, zero, \<open>false\<close>), the answer is 400 with the error
  \<open>Provide email or telegramChatId\<close> and the state is unchanged; if at least one
  of them is truthy, one alert linked to the id of the resolved key is added and the
  answer is 200 \<open>{ok: true}\<close>.
\<close>

theorem alerts_subscribe_validation:
  "requireKey hashKey authorization s = (Next apiKey, s) \<longrightarrow>
     (''email'' \<notin> fst ` set ps \<and> ''telegramChatId'' \<notin> fst ` set ps
        \<longrightarrow> alerts_subscribe hashKey authorization (JObj ps) s
              = (Json 400 (JObj [(''error'', JStr ''Provide email or telegramChatId'')]), s)) \<and>
     (\<not> truthy (lookup ps ''email'') \<and> \<not> truthy (lookup ps ''telegramChatId'')
        \<longrightarrow> alerts_subscribe hashKey authorization (JObj ps) s
              = (Json 400 (JObj [(''error'', JStr ''Provide email or telegramChatId'')]), s)) \<and>
     (truthy (lookup ps ''email'') \<or> truthy (lookup ps ''telegramChatId'')
        \<longrightarrow> alerts_subscribe hashKey authorization (JObj ps) s
              = (Json 200 (JObj [(''ok'', JBool True)]),
                 s\<lparr>alerts := alerts s @
                      [\<lparr>api_key_id = id_key apiKey, alert_email = lookup ps ''email'',
                        telegram_chat_id = or_else (lookup ps ''telegramChatId'') JNull\<rparr>]\<rparr>))"
  by (auto simp: alerts_subscribe_def or_else_def addAlert_def lookup_absent)

theorem alerts_subscribe_validation_witness:
  "alerts_subscribe example_hash (Some ''Bearer ici_abc123'') (JObj []) example_keys
     = (Json 400 (JObj [(''error'', JStr ''Provide email or telegramChatId'')]), example_keys) \<and>
   alerts_subscribe example_hash (Some ''Bearer ici_abc123'') (JObj [(''email'', JNull), (''telegramChatId'', JNum 0)]) example_keys
     = (Json 400 (JObj [(''error'', JStr ''Provide email or telegramChatId'')]), example_keys) \<and>
   alerts_subscribe example_hash (Some ''Bearer ici_abc123'') (JObj [(''telegramChatId'', JNum 4711)]) example_keys
     = (Json 200 (JObj [(''ok'', JBool True)]),
        example_keys\<lparr>alerts := [\<lparr>api_key_id = 1, alert_email = Undefined, telegram_chat_id = JNum 4711\<rparr>]\<rparr>)"
  using alerts_subscribe_validation [of example_hash "Some ''Bearer ici_abc123''" example_keys
          "\<lparr>id_key = 1, key_hash = ''sha256:ici_abc123'', plan = ''pro'', status = ''active'',
            email = JStr ''a@b.com'', stripe_customer_id = JStr ''cus_1'',
            stripe_subscription_id = JStr ''sub_1''\<rparr>" "[]"]
        alerts_subscribe_validation [of example_hash "Some ''Bearer ici_abc123''" example_keys
          "\<lparr>id_key = 1, key_hash = ''sha256:ici_abc123'', plan = ''pro'', status = ''active'',
            email = JStr ''a@b.com'', stripe_customer_id = JStr ''cus_1'',
            stripe_subscription_id = JStr ''sub_1''\<rparr>" "[(''email'', JNull), (''telegramChatId'', JNum 0)]"]
        alerts_subscribe_validation [of example_hash "Some ''Bearer ici_abc123''" example_keys
          "\<lparr>id_key = 1, key_hash = ''sha256:ici_abc123'', plan = ''pro'', status = ''active'',
            email = JStr ''a@b.com'', stripe_customer_id = JStr ''cus_1'',
            stripe_subscription_id = JStr ''sub_1''\<rparr>" "[(''telegramChatId'', JNum 4711)]"]
  by (simp add: requireKey_def startsWith_def example_hash_def example_keys_def getKeyByHash_def
        lookup_def or_else_def)

section \<open>Billing events\<close>

lemma webhook_rejects_unverified:
  "constructEvent (rawBody req) (stripe_signature req) (STRIPE_WEBHOOK_SECRET e) = Inl message
   \<Longrightarrow> webhook hashKey constructEvent e key mail req s = (Text 400 (''Webhook Error: '' @ message), s)"
  by (simp add: webhook_def)

lemma webhook_acknowledges:
  "constructEvent (rawBody req) (stripe_signature req) (STRIPE_WEBHOOK_SECRET e) = Inr ev
   \<Longrightarrow> mail \<noteq> NetworkError \<or> event_type ev \<noteq> ''checkout.session.completed''
   \<Longrightarrow> fst (webhook hashKey constructEvent e key mail req s) = Json 200 (JObj [(''received'', JBool True)])"
  by (auto simp: webhook_def Let_def)

lemma webhook_checkout:
  "constructEvent (rawBody req) (stripe_signature req) (STRIPE_WEBHOOK_SECRET e) = Inr ev
   \<Longrightarrow> event_type ev = ''checkout.session.completed''
   \<Longrightarrow> snd (webhook hashKey constructEvent e key mail req s) =
        s\<lparr>api_keys := api_keys s @
             [\<lparr>id_key = Suc (length (api_keys s)), key_hash = hashKey key, plan = ''pro'',
               status = ''active'',
               email = or_else (lookup (data_object ev) ''customer_email'') JNull,
               stripe_customer_id = or_else (lookup (data_object ev) ''customer'') JNull,
               stripe_subscription_id = or_else (lookup (data_object ev) ''subscription'') JNull\<rparr>],
           sent := sent s @
             (case MAILER_URL e of
                None \<Rightarrow> []
              | Some u \<Rightarrow>
                  if truthy (lookup (data_object ev) ''customer_email'') \<and> u \<noteq> []
                  then [mail_request u (lookup (data_object ev) ''customer_email'') key] else [])\<rparr>
      \<and> fst (webhook hashKey constructEvent e key mail req s) =
          (if truthy (lookup (data_object ev) ''customer_email'') \<and> MAILER_URL e \<noteq> None \<and> MAILER_URL e \<noteq> Some [] \<and> mail = NetworkError
           then Unhandled NetworkFailure else Json 200 (JObj [(''received'', JBool True)]))"
  by (auto simp: webhook_def Let_def insertKey_def split: option.splits)

text \<open>
  Claim C7: for every verified checkout-completed event the Key Store gains exactly one
  record, the last one, with plan \<open>pro\<close>, status \<open>active\<close>, the email, customer
  and subscription of the event (or \<open>null\<close>), and the hash of the generated key.
  The alerts and the cache are untouched. The Key Store after the request depends on the
  generated key through its hash only, the reply does not depend on it at all, and the
  one request that carries the key is the message to the mailer, sent when the event has
  a customer email and \<open>MAILER_URL\<close> is set.
\<close>

theorem checkout_completed_mints_one_key:
  "constructEvent (rawBody req) (stripe_signature req) (STRIPE_WEBHOOK_SECRET e) = Inr ev \<and>
   event_type ev = ''checkout.session.completed'' \<longrightarrow>
     api_keys (snd (webhook hashKey constructEvent e key mail req s))
       = api_keys s @
           [\<lparr>id_key = Suc (length (api_keys s)), key_hash = hashKey key, plan = ''pro'',
             status = ''active'',
             email = or_else (lookup (data_object ev) ''customer_email'') JNull,
             stripe_customer_id = or_else (lookup (data_object ev) ''customer'') JNull,
             stripe_subscription_id = or_else (lookup (data_object ev) ''subscription'') JNull\<rparr>] \<and>
     alerts (snd (webhook hashKey constructEvent e key mail req s)) = alerts s \<and>
     CACHE (snd (webhook hashKey constructEvent e key mail req s)) = CACHE s \<and>
     (hashKey key' = hashKey key \<longrightarrow>
        api_keys (snd (webhook hashKey constructEvent e key' mail req s))
          = api_keys (snd (webhook hashKey constructEvent e key mail req s))) \<and>
     fst (webhook hashKey constructEvent e key' mail req s)
       = fst (webhook hashKey constructEvent e key mail req s) \<and>
     sent (snd (webhook hashKey constructEvent e key mail req s))
       = sent s @
           (case MAILER_URL e of
              None \<Rightarrow> []
            | Some u \<Rightarrow>
                if truthy (lookup (data_object ev) ''customer_email'') \<and> u \<noteq> []
                then [mail_request u (lookup (data_object ev) ''customer_email'') key] else [])"
proof (intro impI, elim conjE)
  assume v: "constructEvent (rawBody req) (stripe_signature req) (STRIPE_WEBHOOK_SECRET e) = Inr ev"
    and c: "event_type ev = ''checkout.session.completed''"
  note k = webhook_checkout [of constructEvent req e ev hashKey key mail s, OF v c]
  note k' = webhook_checkout [of constructEvent req e ev hashKey key' mail s, OF v c]
  show "api_keys (snd (webhook hashKey constructEvent e key mail req s))
       = api_keys s @
           [\<lparr>id_key = Suc (length (api_keys s)), key_hash = hashKey key, plan = ''pro'',
             status = ''active'',
             email = or_else (lookup (data_object ev) ''customer_email'') JNull,
             stripe_customer_id = or_else (lookup (data_object ev) ''customer'') JNull,
             stripe_subscription_id = or_else (lookup (data_object ev) ''subscription'') JNull\<rparr>] \<and>
     alerts (snd (webhook hashKey constructEvent e key mail req s)) = alerts s \<and>
     CACHE (snd (webhook hashKey constructEvent e key mail req s)) = CACHE s \<and>
     (hashKey key' = hashKey key \<longrightarrow>
        api_keys (snd (webhook hashKey constructEvent e key' mail req s))
          = api_keys (snd (webhook hashKey constructEvent e key mail req s))) \<and>
     fst (webhook hashKey constructEvent e key' mail req s)
       = fst (webhook hashKey constructEvent e key mail req s) \<and>
     sent (snd (webhook hashKey constructEvent e key mail req s))
       = sent s @
           (case MAILER_URL e of
              None \<Rightarrow> []
            | Some u \<Rightarrow>
                if truthy (lookup (data_object ev) ''customer_email'') \<and> u \<noteq> []
                then [mail_request u (lookup (data_object ev) ''customer_email'') key] else [])"
    using k k' by simp
qed

theorem checkout_completed_witness:
  "example_constructEvent (Some ''checkout'') (Some ''t=1,v1=good'') (Some ''whsec_test'')
     = Inr \<lparr>event_type = ''checkout.session.completed'',
             data_object = [(''id'', JStr ''cs_9''), (''customer_email'', JStr ''a@b.com''),
                            (''customer'', JStr ''cus_9''), (''subscription'', JStr ''sub_9'')]\<rparr> \<and>
   api_keys (snd (webhook example_hash example_constructEvent example_env ''ici_new789''
                    (Response 200 ())
                    \<lparr>rawBody = Some ''checkout'', stripe_signature = Some ''t=1,v1=good''\<rparr>
                    example_keys))
     = api_keys example_keys @
         [\<lparr>id_key = 3, key_hash = ''sha256:ici_new789'', plan = ''pro'', status = ''active'',
           email = JStr ''a@b.com'', stripe_customer_id = JStr ''cus_9'',
           stripe_subscription_id = JStr ''sub_9''\<rparr>] \<and>
   sent (snd (webhook example_hash example_constructEvent example_env ''ici_new789''
                (Response 200 ())
                \<lparr>rawBody = Some ''checkout'', stripe_signature = Some ''t=1,v1=good''\<rparr>
                example_keys))
     = [mail_request ''https://mailer.example/send'' (JStr ''a@b.com'') ''ici_new789''] \<and>
   take 3 ''ici_other'' = take 3 ''ici_new789'' \<and>
   api_keys (snd (webhook (take 3) example_constructEvent example_env ''ici_other''
                    (Response 200 ())
                    \<lparr>rawBody = Some ''checkout'', stripe_signature = Some ''t=1,v1=good''\<rparr>
                    example_keys))
     = api_keys (snd (webhook (take 3) example_constructEvent example_env ''ici_new789''
                        (Response 200 ())
                        \<lparr>rawBody = Some ''checkout'', stripe_signature = Some ''t=1,v1=good''\<rparr>
                        example_keys))"
  using checkout_completed_mints_one_key
          [of example_constructEvent
              "\<lparr>rawBody = Some ''checkout'', stripe_signature = Some ''t=1,v1=good''\<rparr>" example_env
              "\<lparr>event_type = ''checkout.session.completed'',
                data_object = [(''id'', JStr ''cs_9''), (''customer_email'', JStr ''a@b.com''),
                               (''customer'', JStr ''cus_9''), (''subscription'', JStr ''sub_9'')]\<rparr>"
              example_hash "''ici_new789''" "Response 200 ()" example_keys "''ici_other''"]
        checkout_completed_mints_one_key
          [of example_constructEvent
              "\<lparr>rawBody = Some ''checkout'', stripe_signature = Some ''t=1,v1=good''\<rparr>" example_env
              "\<lparr>event_type = ''checkout.session.completed'',
                data_object = [(''id'', JStr ''cs_9''), (''customer_email'', JStr ''a@b.com''),
                               (''customer'', JStr ''cus_9''), (''subscription'', JStr ''sub_9'')]\<rparr>"
              "take 3" "''ici_new789''" "Response 200 ()" example_keys "''ici_other''"]
  by (simp add: example_constructEvent_def example_env_def example_hash_def example_keys_def
        or_else_def lookup_def)

text \<open>
  Claim C6 at an input where the code departs from it: a verified checkout-completed
  event with a customer email, \<open>MAILER_URL\<close> set, and the mailer unreachable. The
  key is inserted, the awaited \<open>fetch\<close> rejects, and the handler throws before it
  writes \<open>{received: true}\<close>. (\<open>webhook_rejects_unverified\<close> and
  \<open>webhook_acknowledges\<close> are the parts of the claim that hold.)
\<close>

theorem webhook_unacknowledged_when_mailer_unreachable:
  "example_constructEvent (Some ''checkout'') (Some ''t=1,v1=good'') (STRIPE_WEBHOOK_SECRET example_env)
     = Inr \<lparr>event_type = ''checkout.session.completed'',
             data_object = [(''id'', JStr ''cs_9''), (''customer_email'', JStr ''a@b.com''),
                            (''customer'', JStr ''cus_9''), (''subscription'', JStr ''sub_9'')]\<rparr> \<and>
   fst (webhook example_hash example_constructEvent example_env ''ici_new789'' NetworkError
          \<lparr>rawBody = Some ''checkout'', stripe_signature = Some ''t=1,v1=good''\<rparr> example_keys)
     = Unhandled NetworkFailure \<and>
   fst (webhook example_hash example_constructEvent example_env ''ici_new789'' NetworkError
          \<lparr>rawBody = Some ''checkout'', stripe_signature = Some ''t=1,v1=good''\<rparr> example_keys)
     \<noteq> Json 200 (JObj [(''received'', JBool True)]) \<and>
   api_keys (snd (webhook example_hash example_constructEvent example_env ''ici_new789'' NetworkError
                    \<lparr>rawBody = Some ''checkout'', stripe_signature = Some ''t=1,v1=good''\<rparr>
                    example_keys))
     = api_keys example_keys @
         [\<lparr>id_key = 3, key_hash = ''sha256:ici_new789'', plan = ''pro'', status = ''active'',
           email = JStr ''a@b.com'', stripe_customer_id = JStr ''cus_9'',
           stripe_subscription_id = JStr ''sub_9''\<rparr>]"
  by (simp add: webhook_def example_constructEvent_def example_env_def example_hash_def
        example_keys_def insertKey_def or_else_def lookup_def Let_def)

end
